theory Spec2Isabelle
  imports Complex_Main
begin

section \<open>Data model of the 3D annotator\<close>

text \<open>
  The development embeds the annotation subsystem of the 3D annotator: the top-level
  \<^verbatim>\<open>App\<close> component that owns the annotation store and the pending pick, and the
  \<^verbatim>\<open>Annotation\<close> component with its drag handler and per-frame connector update.
  The coordinates that the pick and drag handlers compute with are modelled as exact
  reals, so the rounding of double arithmetic is not part of the model. The connector
  line keeps its coordinates in a \<^verbatim>\<open>Float32Array\<close>; what is stored there is modelled with
  its float32 rounding, and with the values infinity and NaN.
\<close>

text \<open>\<^verbatim>\<open>THREE.Vector3\<close>; the fields are \<^verbatim>\<open>x\<close>, \<^verbatim>\<open>y\<close>, \<^verbatim>\<open>z\<close> in the source.\<close>

datatype Vector3 = Vector3 (vx: real) (vy: real) (vz: real)

text \<open>\<^verbatim>\<open>v.multiplyScalar(s)\<close> and \<^verbatim>\<open>v.add(w)\<close>, as the values they leave in \<^verbatim>\<open>v\<close>.\<close>

definition multiplyScalar :: "Vector3 \<Rightarrow> real \<Rightarrow> Vector3" where
  "multiplyScalar v s = Vector3 (vx v * s) (vy v * s) (vz v * s)"

definition add :: "Vector3 \<Rightarrow> Vector3 \<Rightarrow> Vector3" where
  "add v w = Vector3 (vx v + vx w) (vy v + vy w) (vz v + vz w)"

text \<open>The array literal \<^verbatim>\<open>[p.x, p.y, p.z]\<close>.\<close>

definition xyz :: "Vector3 \<Rightarrow> real list" where
  "xyz p = [vx p, vy p, vz p]"

text \<open>
  A \<^verbatim>\<open>RefObject<THREE.Group>\<close> is a shared mutable cell that the \<^verbatim>\<open>Model\<close> component
  owns. It is modelled by its identity; its \<^verbatim>\<open>current\<close> field is read through a store
  that maps the identity to the mounted group, or to \<open>None\<close> when \<^verbatim>\<open>current\<close> is null.
\<close>

type_synonym GroupRef = nat
type_synonym Group = nat

text \<open>
  One element of \<^verbatim>\<open>annotationsRef.current\<close>. The cells \<^verbatim>\<open>positionRef\<close> and
  \<^verbatim>\<open>contentRef\<close> are created with the element and shared with the \<^verbatim>\<open>Annotation\<close>
  component that renders it, so each field holds the \<^verbatim>\<open>current\<close> value of its cell.
  A content of \<open>None\<close> is JavaScript's \<^verbatim>\<open>null\<close>.
\<close>

record annotation =
  positionRef :: "real list"
  contentRef :: "string option"
  modelRef :: GroupRef
  isImage :: bool

text \<open>The state of \<^verbatim>\<open>App\<close> that the annotation handlers read and write.\<close>

record app_state =
  annotations :: "annotation list"
  showSelectionPanel :: bool
  pendingPoint :: "Vector3 option"
  pendingModelRef :: "GroupRef option"
  annotationCount :: nat

text \<open>The state of a freshly mounted \<^verbatim>\<open>App\<close>: the arguments of its \<^verbatim>\<open>useRef\<close>/\<^verbatim>\<open>useState\<close>.\<close>

definition initialState :: app_state where
  "initialState = \<lparr>annotations = [], showSelectionPanel = False, pendingPoint = None,
     pendingModelRef = None, annotationCount = 0\<rparr>"

datatype error = TypeError

section \<open>The session controller and the annotation store\<close>

definition handleModelClick :: "Vector3 \<Rightarrow> GroupRef \<Rightarrow> app_state \<Rightarrow> app_state" where
  "handleModelClick point mref s =
     s\<lparr>pendingPoint := Some point, pendingModelRef := Some mref, showSelectionPanel := True\<rparr>"

definition handleTextSelection :: "app_state \<Rightarrow> app_state" where
  "handleTextSelection s =
     (case (pendingPoint s, pendingModelRef s) of
        (Some p, Some m) \<Rightarrow>
          (let anns = annotations s @
                 [\<lparr>positionRef = [vx p, vy p, vz p], contentRef = Some ''Annotation'',
                   modelRef = m, isImage = False\<rparr>]
           in s\<lparr>annotations := anns, annotationCount := length anns,
                 showSelectionPanel := False, pendingPoint := None, pendingModelRef := None\<rparr>)
      | _ \<Rightarrow> s)"

text \<open>
  \<^verbatim>\<open>handleImageUpload\<close> of \<^verbatim>\<open>App\<close>. The argument \<open>file\<close> is \<^verbatim>\<open>event.target.files?.[0]\<close>,
  \<open>None\<close> when no file was chosen; \<open>createObjectURL\<close> stands for the browser's
  \<^verbatim>\<open>URL.createObjectURL\<close>.
\<close>

definition handleImageUpload :: "('f \<Rightarrow> string) \<Rightarrow> 'f option \<Rightarrow> app_state \<Rightarrow> app_state" where
  "handleImageUpload createObjectURL file s =
     (case (file, pendingModelRef s, pendingPoint s) of
        (Some f, Some m, Some p) \<Rightarrow>
          (let url = createObjectURL f;
               anns = annotations s @
                 [\<lparr>positionRef = [vx p, vy p, vz p], contentRef = Some url,
                   modelRef = m, isImage = True\<rparr>]
           in s\<lparr>annotations := anns, annotationCount := length anns,
                 showSelectionPanel := False, pendingPoint := None, pendingModelRef := None\<rparr>)
      | _ \<Rightarrow> s)"

text \<open>The \<^verbatim>\<open>onClick\<close> of the Cancel button: \<^verbatim>\<open>() => setShowSelectionPanel(false)\<close>.\<close>

definition cancelOnClick :: "app_state \<Rightarrow> app_state" where
  "cancelOnClick s = s\<lparr>showSelectionPanel := False\<rparr>"

text \<open>
  \<^verbatim>\<open>Array.prototype.splice(start, deleteCount)\<close> with no inserted items, on an integral
  \<open>start\<close>: a negative start counts from the end, both arguments are clamped to the array.
\<close>

definition splice_array :: "int \<Rightarrow> int \<Rightarrow> 'a list \<Rightarrow> 'a list" where
  "splice_array start deleteCount xs =
     (let len = int (length xs);
          actualStart = (if start < 0 then max (len + start) 0 else min start len);
          actualDeleteCount = min (max deleteCount 0) (len - actualStart)
      in take (nat actualStart) xs @ drop (nat (actualStart + actualDeleteCount)) xs)"

definition handleDelete :: "int \<Rightarrow> app_state \<Rightarrow> app_state" where
  "handleDelete index s =
     (let anns = splice_array index 1 (annotations s)
      in s\<lparr>annotations := anns, annotationCount := length anns\<rparr>)"

text \<open>
  \<^verbatim>\<open>a || b\<close> on an optional string: \<^verbatim>\<open>undefined\<close> and the empty string are falsy.
\<close>

definition or_else :: "string option \<Rightarrow> string option \<Rightarrow> string option" where
  "or_else a b = (case a of None \<Rightarrow> b | Some str \<Rightarrow> if str = [] then b else Some str)"

text \<open>
  \<^verbatim>\<open>handleTypeChange\<close>. Reading \<^verbatim>\<open>annotationsRef.current[index]\<close> outside the array
  gives \<^verbatim>\<open>undefined\<close>, and the assignment to its \<^verbatim>\<open>isImage\<close> throws a TypeError.
\<close>

definition handleTypeChange ::
    "int \<Rightarrow> bool \<Rightarrow> string option \<Rightarrow> app_state \<Rightarrow> error + app_state" where
  "handleTypeChange index isImg newContent s =
     (if 0 \<le> index \<and> index < int (length (annotations s)) then
        (let i = nat index;
             r = annotations s ! i;
             r' = r\<lparr>isImage := isImg,
                    contentRef := or_else newContent (if isImg then None else Some ''Annotation'')\<rparr>
         in Inr (s\<lparr>annotations := (annotations s)[i := r'],
                    annotationCount := length (annotations s)\<rparr>))
      else Inl TypeError)"

section \<open>Numbers in a typed array\<close>

text \<open>
  A JavaScript number by its value: a finite value, one of the two infinities, or NaN.
  The sign of zero is not modelled.
\<close>

datatype number = Finite real | PosInfinity | NegInfinity | NaN

text \<open>The number of binary digits of a natural number: 0 for 0, \<open>k\<close> below \<open>2 ^ k\<close>.\<close>

fun bit_length :: "nat \<Rightarrow> nat" where
  "bit_length n = (if n = 0 then 0 else Suc (bit_length (n div 2)))"

declare bit_length.simps [simp del]

definition pow2 :: "int \<Rightarrow> real" where
  "pow2 e = (if 0 \<le> e then 2 ^ nat e else 1 / 2 ^ nat (- e))"

text \<open>
  The exponent of the float32 binade of \<open>x\<close>: the \<open>e\<close> with \<open>2 ^ e \<le> \<bar>x\<bar> < 2 ^ (e + 1)\<close>,
  kept between the least normal exponent \<open>- 126\<close> (all subnormal values share it) and the
  greatest exponent 127.
\<close>

definition float32_exponent :: "real \<Rightarrow> int" where
  "float32_exponent x =
     (if \<bar>x\<bar> < 1 / 2 ^ 126 then - 126
      else if 2 ^ 127 \<le> \<bar>x\<bar> then 127
      else if 1 \<le> \<bar>x\<bar> then int (bit_length (nat \<lfloor>\<bar>x\<bar>\<rfloor>)) - 1
      else - int (bit_length (nat (\<lceil>1 / \<bar>x\<bar>\<rceil> - 1))))"

text \<open>Rounding to the nearest integer, a tie going to the even neighbour.\<close>

definition round_half_even :: "real \<Rightarrow> int" where
  "round_half_even x =
     (let f = \<lfloor>x\<rfloor>; d = x - of_int f
      in if d < 1 / 2 then f else if 1 / 2 < d then f + 1 else if even f then f else f + 1)"

text \<open>
  Rounding to 24 significant binary digits: the nearest multiple of the spacing
  \<open>2 ^ (e - 23)\<close> of the float32 values in the binade of \<open>x\<close>.
\<close>

definition float32_round :: "real \<Rightarrow> real" where
  "float32_round x =
     (let ulp = pow2 (float32_exponent x - 23)
      in of_int (round_half_even (x / ulp)) * ulp)"

text \<open>
  \<^verbatim>\<open>Math.fround\<close>, the conversion that a write into a \<^verbatim>\<open>Float32Array\<close> applies: round to
  nearest, ties to even; a result of magnitude \<open>2 ^ 128\<close> or more is an infinity; infinities
  and NaN are kept.
\<close>

definition fround :: "number \<Rightarrow> number" where
  "fround n =
     (case n of
        Finite x \<Rightarrow>
          (let r = float32_round x
           in if 2 ^ 128 \<le> \<bar>r\<bar> then (if 0 < x then PosInfinity else NegInfinity)
              else Finite r)
      | _ \<Rightarrow> n)"

text \<open>\<^verbatim>\<open>new Float32Array(n)\<close>: \<open>n\<close> zeros.\<close>

definition Float32Array :: "nat \<Rightarrow> number list" where
  "Float32Array n = replicate n (Finite 0)"

section \<open>The annotation component\<close>

text \<open>
  A scene object as far as the handlers touch it: its local \<^verbatim>\<open>position\<close>. The world
  position depends on the scene graph around the object and is taken from the renderer
  (\<^verbatim>\<open>getWorldPosition\<close>) as a parameter.
\<close>

record Object3D =
  position :: Vector3

text \<open>
  The \<^verbatim>\<open>Vector3\<close> that \<^verbatim>\<open>getWorldPosition\<close> fills. It is the product of the matrices up
  the scene graph, so its components are numbers in full: they may be infinite or NaN.
\<close>

datatype WorldPosition = WorldPosition (wx: number) (wy: number) (wz: number)

text \<open>
  \<^verbatim>\<open>getWorldPosition\<close> for an object whose ancestors are not transformed: the world
  position is the local position.
\<close>

definition getWorldPosition_untransformed :: "Object3D \<Rightarrow> WorldPosition" where
  "getWorldPosition_untransformed obj =
     WorldPosition (Finite (vx (position obj))) (Finite (vy (position obj)))
       (Finite (vz (position obj)))"

text \<open>The six coordinates of a connector from one world position to another.\<close>

definition endpoints :: "WorldPosition \<Rightarrow> WorldPosition \<Rightarrow> number list" where
  "endpoints p c = [wx p, wy p, wz p, wx c, wy c, wz c]"

text \<open>
  The connector \<^verbatim>\<open>line\<close>: the \<^verbatim>\<open>Float32Array\<close> of its \<^verbatim>\<open>geometry.attributes.position\<close> and
  the attribute's \<^verbatim>\<open>needsUpdate\<close> flag. The bounding sphere that \<^verbatim>\<open>computeBoundingSphere\<close>
  derives from the array is not part of the model.
\<close>

record Line =
  array :: "number list"
  needsUpdate :: bool

text \<open>
  One entry of the result of \<^verbatim>\<open>raycaster.intersectObject\<close>. The \<^verbatim>\<open>normal\<close> is present
  only for a hit on a mesh whose geometry has normals; \<open>None\<close> is \<^verbatim>\<open>undefined\<close>.
\<close>

record Intersection =
  point :: Vector3
  normal :: "Vector3 option"

text \<open>
  The state of one mounted \<^verbatim>\<open>Annotation\<close>: the three element references (\<open>None\<close> while
  \<^verbatim>\<open>current\<close> is null, that is, while the element is not mounted), the \<^verbatim>\<open>Float32Array\<close>
  \<^verbatim>\<open>positions\<close>, the content panel's position cell and the two \<^verbatim>\<open>useState\<close> values.
\<close>

record annotation_view =
  pivotRef :: "Object3D option"
  contentMeshRef :: "Object3D option"
  lineRef :: "Line option"
  positions :: "number list"
  contentPositionRef :: "real list"
  isEditing :: bool
  content :: "string option"

datatype frame_error = RangeError

text \<open>
  The result of a drag handler: \<open>Inr\<close> with the record and the component when the handler
  returns, \<open>Inl\<close> with the exception and the record and the component as the handler left
  them when it throws.
\<close>

type_synonym drag_result =
  "(error \<times> annotation \<times> annotation_view) + (annotation \<times> annotation_view)"

text \<open>
  \<^verbatim>\<open>handlePivotDrag\<close>, the \<^verbatim>\<open>onDrag\<close> of the anchor handle. \<open>current\<close> reads the
  \<^verbatim>\<open>current\<close> field of a group reference; \<open>intersectObject g\<close> is the result of
  \<^verbatim>\<open>raycaster.setFromCamera(pointer, camera)\<close> followed by
  \<^verbatim>\<open>raycaster.intersectObject(g, true)\<close>, which lists the hits nearest first. The handler
  works on the store's record (through the shared \<^verbatim>\<open>positionRef\<close>) and on the component.
  With \<^verbatim>\<open>normal\<close> undefined, \<^verbatim>\<open>normal.multiplyScalar\<close> throws a TypeError before anything
  is written.
\<close>

definition handlePivotDrag ::
    "(GroupRef \<Rightarrow> Group option) \<Rightarrow> (Group \<Rightarrow> Intersection list) \<Rightarrow>
     annotation \<Rightarrow> annotation_view \<Rightarrow> drag_result" where
  "handlePivotDrag current intersectObject a v =
     (case (pivotRef v, current (modelRef a)) of
        (Some pivot, Some g) \<Rightarrow>
          (case intersectObject g of
             [] \<Rightarrow> Inr (a, v)
           | intersection # _ \<Rightarrow>
               (case normal intersection of
                  None \<Rightarrow> Inl (TypeError, a, v)
                | Some n \<Rightarrow>
                    (let offsetDistance = 0.05;
                         newPosition = add (point intersection) (multiplyScalar n offsetDistance)
                     in Inr (a\<lparr>positionRef :=
                                 [vx newPosition, vy newPosition, vz newPosition]\<rparr>,
                             v\<lparr>pivotRef := Some (pivot\<lparr>position := newPosition\<rparr>)\<rparr>))))
      | _ \<Rightarrow> Inr (a, v))"

text \<open>
  \<^verbatim>\<open>handleDrag\<close> of \<^verbatim>\<open>portfolio/src/App.tsx\<close>, the same handler in the portfolio's copy
  of the application. It moves the pivot to the offset position and stores the
  coordinates of \<^verbatim>\<open>point\<close> itself. In
  \<^verbatim>\<open>position.copy(point).add(normal.multiplyScalar(0.01))\<close> the copy runs before the
  argument of \<^verbatim>\<open>add\<close> is evaluated, so with \<^verbatim>\<open>normal\<close> undefined the TypeError comes
  after the pivot has moved to \<^verbatim>\<open>point\<close>.
\<close>

definition handleDrag ::
    "(GroupRef \<Rightarrow> Group option) \<Rightarrow> (Group \<Rightarrow> Intersection list) \<Rightarrow>
     annotation \<Rightarrow> annotation_view \<Rightarrow> drag_result" where
  "handleDrag current intersectObject a v =
     (case (pivotRef v, current (modelRef a)) of
        (Some pivot, Some g) \<Rightarrow>
          (case intersectObject g of
             [] \<Rightarrow> Inr (a, v)
           | intersection # _ \<Rightarrow>
               (let pt = point intersection
                in case normal intersection of
                     None \<Rightarrow>
                       Inl (TypeError, a, v\<lparr>pivotRef := Some (pivot\<lparr>position := pt\<rparr>)\<rparr>)
                   | Some n \<Rightarrow>
                       Inr (a\<lparr>positionRef := [vx pt, vy pt, vz pt]\<rparr>,
                            v\<lparr>pivotRef := Some (pivot\<lparr>position :=
                                  add pt (multiplyScalar n 0.01)\<rparr>)\<rparr>)))
      | _ \<Rightarrow> Inr (a, v))"

text \<open>
  \<^verbatim>\<open>target.set(source)\<close> from one \<^verbatim>\<open>Float32Array\<close> to another: the source overwrites the
  front of the target, and a source longer than the target is a RangeError.
\<close>

definition typed_array_set :: "number list \<Rightarrow> number list \<Rightarrow> frame_error + number list" where
  "typed_array_set target source =
     (if length source \<le> length target then Inr (source @ drop (length source) target)
      else Inl RangeError)"

text \<open>
  The \<^verbatim>\<open>useFrame\<close> callback of \<^verbatim>\<open>Annotation\<close>, run once per rendered frame. Each indexed
  write into \<^verbatim>\<open>positions.current\<close> converts the coordinate to float32; a write beyond the
  length of a typed array is ignored, as \<open>xs[i := v]\<close> is.
\<close>

definition useFrame ::
    "(Object3D \<Rightarrow> WorldPosition) \<Rightarrow> annotation_view \<Rightarrow> frame_error + annotation_view" where
  "useFrame getWorldPosition v =
     (case (pivotRef v, contentMeshRef v, lineRef v) of
        (Some pivot, Some contentMesh, Some line) \<Rightarrow>
          (let pivotWorldPos = getWorldPosition pivot;
               contentWorldPos = getWorldPosition contentMesh;
               ps = (positions v)
                      [0 := fround (wx pivotWorldPos), 1 := fround (wy pivotWorldPos),
                       2 := fround (wz pivotWorldPos), 3 := fround (wx contentWorldPos),
                       4 := fround (wy contentWorldPos), 5 := fround (wz contentWorldPos)]
           in case typed_array_set (array line) ps of
                Inl e \<Rightarrow> Inl e
              | Inr arr \<Rightarrow>
                  Inr (v\<lparr>positions := ps,
                         lineRef := Some (line\<lparr>array := arr, needsUpdate := True\<rparr>)\<rparr>))
      | _ \<Rightarrow> Inr v)"

section \<open>Dragging the anchor handle\<close>

text \<open>
  What \<^verbatim>\<open>handlePivotDrag\<close> does on a hit that carries a normal: the nearest intersection
  point, moved by 0.05 along the surface normal, becomes both the pivot's position and the
  stored anchor.
\<close>

lemma handlePivotDrag_hit:
  assumes "pivotRef v = Some pivot" and "current (modelRef a) = Some g"
    and "intersectObject g = hit # rest" and "normal hit = Some n"
  shows "handlePivotDrag current intersectObject a v =
           Inr (a\<lparr>positionRef := xyz (add (point hit) (multiplyScalar n 0.05))\<rparr>,
                v\<lparr>pivotRef := Some (pivot\<lparr>position :=
                      add (point hit) (multiplyScalar n 0.05)\<rparr>)\<rparr>)"
  using assms by (simp add: handlePivotDrag_def xyz_def Let_def)

text \<open>
  Claim C1: on every drag-continuation event whose ray hits the bound mesh, the pivot
  position and the stored anchor both become the nearest intersection point moved by a
  fixed small distance along the surface normal. \<^verbatim>\<open>handlePivotDrag\<close> does so (lemma
  \<open>handlePivotDrag_hit\<close>). \<^verbatim>\<open>handleDrag\<close> of the portfolio copy does not: for a hit at
  \<open>(1, 2, 3)\<close> with normal \<open>(0, 0, 1)\<close> it moves the pivot to \<open>(1, 2, 3.01)\<close> and stores the
  anchor \<open>[1, 2, 3]\<close>, the point without the offset.
\<close>

theorem handleDrag_stores_raw_point:
  "handleDrag (\<lambda>r. Some 0) (\<lambda>g. [\<lparr>point = Vector3 1 2 3, normal = Some (Vector3 0 0 1)\<rparr>])
      \<lparr>positionRef = [0, 0, 0], contentRef = Some ''Annotation'', modelRef = 0, isImage = False\<rparr>
      \<lparr>pivotRef = Some \<lparr>position = Vector3 0 0 0\<rparr>, contentMeshRef = None, lineRef = None,
        positions = Float32Array 6, contentPositionRef = [5, 0, 5], isEditing = False,
        content = Some ''Annotation''\<rparr>
   = Inr (\<lparr>positionRef = [1, 2, 3], contentRef = Some ''Annotation'', modelRef = 0,
           isImage = False\<rparr>,
          \<lparr>pivotRef = Some \<lparr>position = Vector3 1 2 3.01\<rparr>, contentMeshRef = None,
            lineRef = None, positions = Float32Array 6, contentPositionRef = [5, 0, 5],
            isEditing = False, content = Some ''Annotation''\<rparr>)
   \<and> [1, 2, 3] \<noteq> xyz (add (Vector3 1 2 3) (multiplyScalar (Vector3 0 0 1) 0.01))"
  by (simp add: handleDrag_def xyz_def add_def multiplyScalar_def Let_def)

text \<open>
  Claim C2: a drag-continuation event on the anchor handle whose ray misses the bound
  mesh, or whose mesh reference is no longer valid, is a silent no-op: the handler returns
  normally and neither the annotation record nor the component changes. This holds for
  \<^verbatim>\<open>handlePivotDrag\<close> and for \<^verbatim>\<open>handleDrag\<close> of the portfolio copy.
\<close>

theorem drag_miss_noop:
  assumes "current (modelRef a) = None \<or>
           (\<exists>g. current (modelRef a) = Some g \<and> intersectObject g = [])"
  shows "handlePivotDrag current intersectObject a v = Inr (a, v) \<and>
         handleDrag current intersectObject a v = Inr (a, v)"
  using assms
  by (auto simp: handlePivotDrag_def handleDrag_def split: option.splits list.splits)

theorem drag_miss_noop_witness:
  "(let a = \<lparr>positionRef = [1, 2, 3], contentRef = Some ''Annotation'', modelRef = 7,
              isImage = False\<rparr>;
        v = \<lparr>pivotRef = Some \<lparr>position = Vector3 1 2 3\<rparr>, contentMeshRef = None,
              lineRef = None, positions = Float32Array 6, contentPositionRef = [6, 2, 8],
              isEditing = False, content = Some ''Annotation''\<rparr>;
        current = (\<lambda>r. if r = (7::nat) then Some (4::nat) else None);
        intersectObject = (\<lambda>g::nat. ([]::Intersection list))
    in (current (modelRef a) = None \<or>
           (\<exists>g. current (modelRef a) = Some g \<and> intersectObject g = [])) \<and>
       handlePivotDrag current intersectObject a v = Inr (a, v) \<and>
       handleDrag current intersectObject a v = Inr (a, v))"
  using drag_miss_noop [of "\<lambda>r. if r = (7::nat) then Some (4::nat) else None"
      "\<lparr>positionRef = [1, 2, 3], contentRef = Some ''Annotation'', modelRef = 7,
        isImage = False\<rparr>"
      "\<lambda>g::nat. ([]::Intersection list)"]
  by (simp add: Let_def)

section \<open>The connector line\<close>

text \<open>
  The rounding is the one of float32. Between the least normal magnitude and \<open>2 ^ 128\<close>
  the exponent is that of the binade of \<open>x\<close>; the rounded value is a multiple of the
  spacing \<open>2 ^ (e - 23)\<close>, at most half a spacing away from \<open>x\<close>, and a multiple of the
  spacing is kept as it is.
\<close>

lemma bit_length_bounds:
  "0 < n \<Longrightarrow> 2 ^ (bit_length n - 1) \<le> n \<and> n < 2 ^ bit_length n"
proof (induction n rule: bit_length.induct)
  case (1 n)
  show ?case
  proof (cases "n div 2 = 0")
    case True
    with "1.prems" have "n = 1" by (simp add: div_eq_0_iff) 
    then show ?thesis by (simp add: bit_length.simps)
  next
    case False
    then have pos: "0 < n div 2" by simp
    from "1.prems" have n0: "n \<noteq> 0" by simp
    from "1.IH"[OF n0 pos]
    have ih: "2 ^ (bit_length (n div 2) - 1) \<le> n div 2" "n div 2 < 2 ^ bit_length (n div 2)"
      by simp_all
    have bl: "bit_length n = Suc (bit_length (n div 2))"
      using n0 by (subst bit_length.simps) simp
    have blpos: "0 < bit_length (n div 2)"
      using pos by (subst bit_length.simps) simp
    have "2 ^ (bit_length n - 1) = 2 * 2 ^ (bit_length (n div 2) - 1)"
      using bl blpos by (cases "bit_length (n div 2)") simp_all
    also have "\<dots> \<le> 2 * (n div 2)" using ih(1) by simp
    also have "\<dots> \<le> n" by simp
    finally have lo: "2 ^ (bit_length n - 1) \<le> n" .
    have "n < 2 * (n div 2) + 2" by presburger
    also have "\<dots> \<le> 2 * 2 ^ bit_length (n div 2)" using ih(2) by simp
    finally have hi: "n < 2 ^ bit_length n" using bl by simp
    from lo hi show ?thesis ..
  qed
qed

lemma round_half_even_of_int: "round_half_even (of_int k) = k"
  by (simp add: round_half_even_def)

lemma round_half_even_close: "\<bar>of_int (round_half_even y) - y\<bar> \<le> 1 / 2"
proof -
  have "of_int \<lfloor>y\<rfloor> \<le> y" "y < of_int \<lfloor>y\<rfloor> + 1" by linarith+
  then show ?thesis
    by (auto simp: round_half_even_def Let_def)
qed

lemma pow2_pos: "0 < pow2 e"
  by (simp add: pow2_def)


lemma float32_exponent_bounds:
  assumes "1 / 2 ^ 126 \<le> \<bar>x\<bar>" and "\<bar>x\<bar> < 2 ^ 128"
  shows "pow2 (float32_exponent x) \<le> \<bar>x\<bar> \<and> \<bar>x\<bar> < pow2 (float32_exponent x + 1)"
proof -
  consider (top) "2 ^ 127 \<le> \<bar>x\<bar>" | (mid) "1 \<le> \<bar>x\<bar>" "\<bar>x\<bar> < 2 ^ 127" | (low) "\<bar>x\<bar> < 1"
    by linarith
  then show ?thesis
  proof cases
    case top
    with assms have "float32_exponent x = 127" by (simp add: float32_exponent_def)
    with top assms(2) show ?thesis by (simp add: pow2_def)
  next
    case mid
    define n where "n = nat \<lfloor>\<bar>x\<bar>\<rfloor>"
    define k where "k = bit_length n"
    have npos: "0 < n" using mid(1) by (simp add: n_def)
    have e: "float32_exponent x = int k - 1"
      using mid assms(1) by (simp add: float32_exponent_def n_def k_def)
    have kpos: "0 < k" using npos unfolding k_def by (subst bit_length.simps) simp
    from bit_length_bounds[OF npos] have b: "2 ^ (k - 1) \<le> n" "n < 2 ^ k"
      by (simp_all add: k_def)
    have nx: "real n \<le> \<bar>x\<bar>" "\<bar>x\<bar> < real n + 1"
      unfolding n_def by linarith+
    have "real (2 ^ (k - 1)) \<le> real n" using b(1) by (rule of_nat_mono)
    then have "(2::real) ^ (k - 1) \<le> real n" by simp
    with nx(1) have lo: "(2::real) ^ (k - 1) \<le> \<bar>x\<bar>" by linarith
    have "Suc n \<le> 2 ^ k" using b(2) by simp
    then have "real (Suc n) \<le> real (2 ^ k)" by (rule of_nat_mono)
    then have "real n + 1 \<le> 2 ^ k" by simp
    with nx(2) have hi: "\<bar>x\<bar> < 2 ^ k" by linarith
    have p1: "pow2 (int k - 1) = 2 ^ (k - 1)"
      using kpos by (simp add: pow2_def nat_diff_distrib')
    have p2: "pow2 (int k - 1 + 1) = 2 ^ k" by (simp add: pow2_def)
    show ?thesis unfolding e p1 p2 using lo hi ..
  next
    case low
    have xpos: "0 < \<bar>x\<bar>" using assms(1) by (smt (verit) divide_pos_pos zero_less_power)
    define y where "y = 1 / \<bar>x\<bar>"
    have y1: "1 < y" unfolding y_def using low xpos by simp
    define m where "m = nat (\<lceil>y\<rceil> - 1)"
    define k where "k = bit_length m"
    have c2: "2 \<le> \<lceil>y\<rceil>" using y1 by linarith
    then have mpos: "0 < m" by (simp add: m_def)
    have mc: "int m = \<lceil>y\<rceil> - 1" using c2 by (simp add: m_def)
    have e: "float32_exponent x = - int k"
      using low assms(1) by (simp add: float32_exponent_def m_def k_def y_def)
    have kpos: "0 < k" using mpos unfolding k_def by (subst bit_length.simps) simp
    from bit_length_bounds[OF mpos] have b: "2 ^ (k - 1) \<le> m" "m < 2 ^ k"
      by (simp_all add: k_def)
    have "real m < y" using mc by linarith
    moreover have "real (2 ^ (k - 1)) \<le> real m" using b(1) by (rule of_nat_mono)
    then have "(2::real) ^ (k - 1) \<le> real m" by simp
    ultimately have ylo: "2 ^ (k - 1) < y" by linarith
    have "Suc m \<le> 2 ^ k" using b(2) by simp
    then have "int (Suc m) \<le> int (2 ^ k)" by (rule of_nat_mono)
    then have "\<lceil>y\<rceil> \<le> 2 ^ k" using mc by simp
    then have "y \<le> of_int (2 ^ k)" by (simp only: ceiling_le_iff)
    then have yhi: "y \<le> 2 ^ k" by simp
    have lo: "1 / 2 ^ k \<le> \<bar>x\<bar>"
    proof -
      have "1 / 2 ^ k \<le> 1 / y" using yhi y1 by (intro divide_left_mono) (simp_all)
      then show ?thesis using xpos by (simp add: y_def)
    qed
    have hi: "\<bar>x\<bar> < 1 / 2 ^ (k - 1)"
    proof -
      have "0 < y" using y1 by simp
      then have "1 / y < 1 / 2 ^ (k - 1)" using ylo by (intro divide_strict_left_mono) simp_all
      then show ?thesis using xpos by (simp add: y_def)
    qed
    have p1: "pow2 (- int k) = 1 / 2 ^ k" using kpos by (simp add: pow2_def)
    have p2: "pow2 (- int k + 1) = 1 / 2 ^ (k - 1)"
    proof (cases "k = 1")
      case True then show ?thesis by (simp add: pow2_def)
    next
      case False
      with kpos have "1 < k" by simp
      then have "nat (int k - 1) = k - 1" by simp
      with \<open>1 < k\<close> show ?thesis by (simp add: pow2_def)
    qed
    show ?thesis unfolding e p1 p2 using lo hi ..
  qed
qed

lemma float32_exponent_subnormal: "\<bar>x\<bar> < 1 / 2 ^ 126 \<Longrightarrow> float32_exponent x = - 126"
  by (simp add: float32_exponent_def)

lemma float32_round_close:
  "\<bar>float32_round x - x\<bar> \<le> pow2 (float32_exponent x - 23) / 2"
proof -
  let ?u = "pow2 (float32_exponent x - 23)"
  have u: "0 < ?u" by (rule pow2_pos)
  have "float32_round x - x = (of_int (round_half_even (x / ?u)) - x / ?u) * ?u"
    using u by (simp add: float32_round_def Let_def algebra_simps)
  then have "\<bar>float32_round x - x\<bar> = \<bar>of_int (round_half_even (x / ?u)) - x / ?u\<bar> * ?u"
    using u by (simp add: abs_mult)
  also have "\<dots> \<le> (1 / 2) * ?u"
    using round_half_even_close[of "x / ?u"] u by (intro mult_right_mono) simp_all
  finally show ?thesis by simp
qed

lemma float32_round_fixed:
  assumes "x = of_int m * pow2 (float32_exponent x - 23)"
  shows "float32_round x = x"
proof -
  let ?u = "pow2 (float32_exponent x - 23)"
  have u: "0 < ?u" by (rule pow2_pos)
  have "x / ?u = of_int m" using assms u by (simp add: field_simps)
  then have "round_half_even (x / ?u) = m" by (simp add: round_half_even_of_int)
  then show ?thesis using assms by (simp add: float32_round_def Let_def)
qed

lemmas fround_eval = fround_def float32_round_def float32_exponent_def round_half_even_def
  pow2_def bit_length.simps Let_def

lemma fround_not_finite:
  "fround NaN = NaN" "fround PosInfinity = PosInfinity" "fround NegInfinity = NegInfinity"
  by (simp_all add: fround_def)

lemma fround_examples:
  "fround (Finite 0) = Finite 0"
  "fround (Finite 1) = Finite 1"
  "fround (Finite 2) = Finite 2"
  "fround (Finite 3) = Finite 3"
  "fround (Finite 6) = Finite 6"
  "fround (Finite 8) = Finite 8"
  "fround (Finite (- 2.5)) = Finite (- 2.5)"
  "fround (Finite 16777217) = Finite 16777216"
  "fround (Finite (3602879701896397 / 36028797018963968)) = Finite (13421773 / 134217728)"
  "fround (Finite (2 ^ 128 - 2 ^ 103)) = PosInfinity"
  "fround (Finite (3 / 2 ^ 150)) = Finite (1 / 2 ^ 148)"
  by (simp_all add: fround_eval)

lemma Float32Array_6:
  "Float32Array 6 = [Finite 0, Finite 0, Finite 0, Finite 0, Finite 0, Finite 0]"
  by (simp add: Float32Array_def eval_nat_numeral)

lemma typed_array_set_same_length:
  "length source = length target \<Longrightarrow> typed_array_set target source = Inr source"
  by (simp add: typed_array_set_def)

lemma six_updates:
  "length xs = 6 \<Longrightarrow> xs[0 := a, 1 := b, 2 := c, 3 := d, 4 := e, 5 := f] = [a, b, c, d, e, f]"
  by (auto simp: length_Suc_conv eval_nat_numeral)

lemma useFrame_mounted:
  assumes "pivotRef v = Some pivot" and "contentMeshRef v = Some contentMesh"
    and "lineRef v = Some line" and "length (positions v) = 6" and "length (array line) = 6"
  shows "useFrame getWorldPosition v =
           Inr (v\<lparr>positions :=
                    map fround (endpoints (getWorldPosition pivot) (getWorldPosition contentMesh)),
                  lineRef := Some (line\<lparr>array :=
                    map fround (endpoints (getWorldPosition pivot) (getWorldPosition contentMesh)),
                    needsUpdate := True\<rparr>)\<rparr>)"
proof -
  let ?p = "getWorldPosition pivot" and ?c = "getWorldPosition contentMesh"
  let ?ps = "(positions v)[0 := fround (wx ?p), 1 := fround (wy ?p), 2 := fround (wz ?p),
               3 := fround (wx ?c), 4 := fround (wy ?c), 5 := fround (wz ?c)]"
  have "?ps = [fround (wx ?p), fround (wy ?p), fround (wz ?p),
               fround (wx ?c), fround (wy ?c), fround (wz ?c)]"
    using assms(4) by (rule six_updates)
  then have ps: "?ps = map fround (endpoints ?p ?c)"
    by (simp add: endpoints_def)
  have "typed_array_set (array line) (map fround (endpoints ?p ?c)) =
          Inr (map fround (endpoints ?p ?c))"
    using assms(5) by (simp add: typed_array_set_same_length endpoints_def)
  then show ?thesis
    unfolding useFrame_def using assms(1-3) ps by (simp add: Let_def)
qed

lemma useFrame_unmounted:
  "pivotRef v = None \<or> contentMeshRef v = None \<or> lineRef v = None \<Longrightarrow>
     useFrame getWorldPosition v = Inr v"
  by (auto simp: useFrame_def split: option.splits)

text \<open>
  Claim C3, as amended: on a frame in which the anchor handle, the content panel and the
  line are mounted, the frame callback succeeds and the line's two endpoints are the
  float32 roundings of the world positions of the anchor handle and of the content panel
  at that frame, an infinite or NaN coordinate being stored as it is; when one of the
  three is not mounted the callback changes nothing, so no coordinate is written at all.
  The two arrays are the six-element \<^verbatim>\<open>Float32Array\<close> of the component.
\<close>

theorem useFrame_connector:
  assumes "length (positions v) = 6"
    and "\<forall>line. lineRef v = Some line \<longrightarrow> length (array line) = 6"
  shows "(\<forall>pivot contentMesh line.
            pivotRef v = Some pivot \<and> contentMeshRef v = Some contentMesh \<and>
            lineRef v = Some line \<longrightarrow>
            (\<exists>v'. useFrame getWorldPosition v = Inr v' \<and>
                  map_option array (lineRef v') =
                    Some (map fround
                      (endpoints (getWorldPosition pivot) (getWorldPosition contentMesh))) \<and>
                  positions v' =
                    map fround
                      (endpoints (getWorldPosition pivot) (getWorldPosition contentMesh)) \<and>
                  pivotRef v' = pivotRef v \<and> contentMeshRef v' = contentMeshRef v)) \<and>
         (pivotRef v = None \<or> contentMeshRef v = None \<or> lineRef v = None \<longrightarrow>
            useFrame getWorldPosition v = Inr v) \<and>
         fround NaN = NaN \<and> fround PosInfinity = PosInfinity \<and>
         fround NegInfinity = NegInfinity"
proof (intro conjI allI impI)
  fix pivot contentMesh line
  assume m: "pivotRef v = Some pivot \<and> contentMeshRef v = Some contentMesh \<and> lineRef v = Some line"
  with assms(2) have "length (array line) = 6" by simp
  with m assms(1) show "\<exists>v'. useFrame getWorldPosition v = Inr v' \<and>
                  map_option array (lineRef v') =
                    Some (map fround
                      (endpoints (getWorldPosition pivot) (getWorldPosition contentMesh))) \<and>
                  positions v' =
                    map fround
                      (endpoints (getWorldPosition pivot) (getWorldPosition contentMesh)) \<and>
                  pivotRef v' = pivotRef v \<and> contentMeshRef v' = contentMeshRef v"
    by (simp add: useFrame_mounted)
next
  assume "pivotRef v = None \<or> contentMeshRef v = None \<or> lineRef v = None"
  then show "useFrame getWorldPosition v = Inr v" by (rule useFrame_unmounted)
qed (simp_all add: fround_not_finite)

theorem useFrame_connector_witness:
  "useFrame getWorldPosition_untransformed
      \<lparr>pivotRef = Some \<lparr>position = Vector3 1 2 3\<rparr>,
        contentMeshRef = Some \<lparr>position = Vector3 6 2 8\<rparr>,
        lineRef = Some \<lparr>array = Float32Array 6, needsUpdate = False\<rparr>,
        positions = Float32Array 6, contentPositionRef = [6, 2, 8], isEditing = False,
        content = Some ''Annotation''\<rparr>
   = Inr \<lparr>pivotRef = Some \<lparr>position = Vector3 1 2 3\<rparr>,
        contentMeshRef = Some \<lparr>position = Vector3 6 2 8\<rparr>,
        lineRef = Some \<lparr>array = [Finite 1, Finite 2, Finite 3, Finite 6, Finite 2, Finite 8],
                         needsUpdate = True\<rparr>,
        positions = [Finite 1, Finite 2, Finite 3, Finite 6, Finite 2, Finite 8],
        contentPositionRef = [6, 2, 8], isEditing = False, content = Some ''Annotation''\<rparr>
   \<and> useFrame getWorldPosition_untransformed
      \<lparr>pivotRef = Some \<lparr>position = Vector3 1 2 3\<rparr>,
        contentMeshRef = None,
        lineRef = Some \<lparr>array = Float32Array 6, needsUpdate = False\<rparr>,
        positions = Float32Array 6, contentPositionRef = [6, 2, 8], isEditing = False,
        content = Some ''Annotation''\<rparr>
   = Inr \<lparr>pivotRef = Some \<lparr>position = Vector3 1 2 3\<rparr>,
        contentMeshRef = None,
        lineRef = Some \<lparr>array = Float32Array 6, needsUpdate = False\<rparr>,
        positions = Float32Array 6, contentPositionRef = [6, 2, 8], isEditing = False,
        content = Some ''Annotation''\<rparr>"
  using useFrame_connector [of
      "\<lparr>pivotRef = Some \<lparr>position = Vector3 1 2 3\<rparr>,
        contentMeshRef = Some \<lparr>position = Vector3 6 2 8\<rparr>,
        lineRef = Some \<lparr>array = Float32Array 6, needsUpdate = False\<rparr>,
        positions = Float32Array 6, contentPositionRef = [6, 2, 8], isEditing = False,
        content = Some ''Annotation''\<rparr>"
      getWorldPosition_untransformed]
    useFrame_connector [of
      "\<lparr>pivotRef = Some \<lparr>position = Vector3 1 2 3\<rparr>,
        contentMeshRef = None,
        lineRef = Some \<lparr>array = Float32Array 6, needsUpdate = False\<rparr>,
        positions = Float32Array 6, contentPositionRef = [6, 2, 8], isEditing = False,
        content = Some ''Annotation''\<rparr>"
      getWorldPosition_untransformed]
  by (simp add: useFrame_def typed_array_set_def Float32Array_6
        getWorldPosition_untransformed_def endpoints_def fround_examples Let_def)

text \<open>
  The claim as stated fails: with the anchor handle at the world position
  \<open>(16777217, 2, 3)\<close> and the content panel at \<open>(d, 2, 8)\<close>, where \<open>d\<close> is the double nearest
  to 0.1, the line's endpoints after the frame are \<open>(16777216, 2, 3)\<close> and
  \<open>(13421773 / 2 ^ 27, 2, 8)\<close>, not the two world positions.
\<close>

theorem useFrame_connector_counterexample:
  "useFrame getWorldPosition_untransformed
      \<lparr>pivotRef = Some \<lparr>position = Vector3 16777217 2 3\<rparr>,
        contentMeshRef =
          Some \<lparr>position = Vector3 (3602879701896397 / 36028797018963968) 2 8\<rparr>,
        lineRef = Some \<lparr>array = Float32Array 6, needsUpdate = False\<rparr>,
        positions = Float32Array 6, contentPositionRef = [6, 2, 8], isEditing = False,
        content = Some ''Annotation''\<rparr>
   = Inr \<lparr>pivotRef = Some \<lparr>position = Vector3 16777217 2 3\<rparr>,
        contentMeshRef =
          Some \<lparr>position = Vector3 (3602879701896397 / 36028797018963968) 2 8\<rparr>,
        lineRef = Some \<lparr>array = [Finite 16777216, Finite 2, Finite 3,
                                  Finite (13421773 / 134217728), Finite 2, Finite 8],
                         needsUpdate = True\<rparr>,
        positions = [Finite 16777216, Finite 2, Finite 3,
                     Finite (13421773 / 134217728), Finite 2, Finite 8],
        contentPositionRef = [6, 2, 8], isEditing = False, content = Some ''Annotation''\<rparr>
   \<and> [Finite 16777216, Finite 2, Finite 3, Finite (13421773 / 134217728), Finite 2, Finite 8]
     \<noteq> endpoints (getWorldPosition_untransformed \<lparr>position = Vector3 16777217 2 3\<rparr>)
         (getWorldPosition_untransformed
            \<lparr>position = Vector3 (3602879701896397 / 36028797018963968) 2 8\<rparr>)"
  by (simp add: useFrame_def typed_array_set_def Float32Array_6
        getWorldPosition_untransformed_def endpoints_def fround_examples Let_def)

section \<open>Picking a point and choosing the content kind\<close>

text \<open>
  Claim C4, as amended: after a double-activation pick at \<open>(1, 2, 3)\<close> and the choice of
  Text, the store of a fresh session holds exactly one record; its anchor is the picked
  point \<open>(1, 2, 3)\<close> itself, with no offset along the normal, its kind is Text and its
  content is the placeholder \<open>''Annotation''\<close>. From any state the same record is appended
  behind the records already there.
\<close>

theorem pick_then_text:
  "handleTextSelection (handleModelClick (Vector3 1 2 3) mref initialState) =
     \<lparr>annotations = [\<lparr>positionRef = [1, 2, 3], contentRef = Some ''Annotation'',
                       modelRef = mref, isImage = False\<rparr>],
      showSelectionPanel = False, pendingPoint = None, pendingModelRef = None,
      annotationCount = 1\<rparr> \<and>
   annotations (handleTextSelection (handleModelClick (Vector3 1 2 3) mref s)) =
     annotations s @ [\<lparr>positionRef = [1, 2, 3], contentRef = Some ''Annotation'',
                       modelRef = mref, isImage = False\<rparr>]"
  by (simp add: handleTextSelection_def handleModelClick_def initialState_def)

text \<open>
  The claim as stated fails: with the surface normal \<open>(0, 0, 1)\<close> and the offset 0.05 of
  the drag handler, the stored anchor is not \<open>(1, 2, 3.05)\<close>.
\<close>

theorem pick_then_text_counterexample:
  "positionRef (hd (annotations (handleTextSelection
       (handleModelClick (Vector3 1 2 3) 0 initialState))))
     \<noteq> xyz (add (Vector3 1 2 3) (multiplyScalar (Vector3 0 0 1) 0.05))"
  by (simp add: handleTextSelection_def handleModelClick_def initialState_def xyz_def add_def
      multiplyScalar_def)

text \<open>
  Claim C5: the pending pick is a single slot. A pick made while one is already held
  overwrites the point and the model reference: the state is the one the second pick
  alone would have produced, nothing is queued, the store is untouched, and the handler
  cannot fail.
\<close>

theorem second_pick_overwrites:
  "handleModelClick p2 m2 (handleModelClick p1 m1 s) = handleModelClick p2 m2 s \<and>
   pendingPoint (handleModelClick p2 m2 (handleModelClick p1 m1 s)) = Some p2 \<and>
   pendingModelRef (handleModelClick p2 m2 (handleModelClick p1 m1 s)) = Some m2 \<and>
   annotations (handleModelClick p2 m2 (handleModelClick p1 m1 s)) = annotations s"
  by (simp add: handleModelClick_def)

text \<open>
  Claim C6, as amended: cancelling the selection panel hides the panel and appends no
  record; an image-file selection that delivers no file changes nothing at all.
\<close>

theorem cancel_appends_nothing:
  "annotations (cancelOnClick s) = annotations s \<and>
   showSelectionPanel (cancelOnClick s) = False \<and>
   handleImageUpload createObjectURL None s = s"
  by (simp add: cancelOnClick_def handleImageUpload_def)

text \<open>
  The claim as stated fails: after a pick at \<open>(1, 2, 3)\<close>, the Cancel button leaves the
  pending point and the pending model reference in place, and an image selection without
  a file leaves the pending point in place and the panel open.
\<close>

theorem cancel_keeps_pending_counterexample:
  "pendingPoint (cancelOnClick (handleModelClick (Vector3 1 2 3) 0 initialState))
     = Some (Vector3 1 2 3) \<and>
   pendingModelRef (cancelOnClick (handleModelClick (Vector3 1 2 3) 0 initialState)) = Some 0 \<and>
   pendingPoint (handleImageUpload id (None :: string option)
       (handleModelClick (Vector3 1 2 3) 0 initialState)) = Some (Vector3 1 2 3) \<and>
   showSelectionPanel (handleImageUpload id (None :: string option)
       (handleModelClick (Vector3 1 2 3) 0 initialState))"
  by (simp add: cancelOnClick_def handleModelClick_def handleImageUpload_def initialState_def)

text \<open>
  Claim C10: without a pending pick (the pending point or the pending model reference is
  null) choosing Text and completing an image-file selection leave the whole state, and
  with it the store and every record, unchanged.
\<close>

theorem finalize_without_pending_noop:
  assumes "pendingPoint s = None \<or> pendingModelRef s = None"
  shows "handleTextSelection s = s \<and> handleImageUpload createObjectURL file s = s"
  using assms
  by (auto simp: handleTextSelection_def handleImageUpload_def split: option.splits)

theorem finalize_without_pending_noop_witness:
  "(pendingPoint initialState = None \<or> pendingModelRef initialState = None) \<and>
   handleTextSelection initialState = initialState \<and>
   handleImageUpload (\<lambda>f::string. f) (Some ''photo.png'') initialState = initialState"
  using finalize_without_pending_noop [of initialState "\<lambda>f::string. f" "Some ''photo.png''"]
  by (simp add: initialState_def)

section \<open>The annotation store\<close>

lemma splice_one_in_range:
  assumes "0 \<le> i" and "i < int (length xs)"
  shows "splice_array i 1 xs = take (nat i) xs @ drop (Suc (nat i)) xs"
proof -
  have "min i (int (length xs)) = i" using assms by simp
  moreover have "min (max (1::int) 0) (int (length xs) - i) = 1" using assms by simp
  moreover have "nat (i + 1) = Suc (nat i)" using assms by simp
  ultimately show ?thesis using assms by (simp add: splice_array_def Let_def)
qed

text \<open>
  Claim C7: on a store holding \<open>A\<close> then \<open>B\<close>, deleting index 0 leaves exactly \<open>[B]\<close>. In
  general, deleting a valid index \<open>i\<close> removes the record at \<open>i\<close> only: the records before
  \<open>i\<close> keep their index, every record behind \<open>i\<close> moves down by one, and the order is kept.
\<close>

theorem handleDelete_reindexes:
  "(annotations s = [A, B] \<longrightarrow> annotations (handleDelete 0 s) = [B]) \<and>
   (0 \<le> i \<and> i < int (length (annotations s)) \<longrightarrow>
      annotations (handleDelete i s) =
        take (nat i) (annotations s) @ drop (Suc (nat i)) (annotations s) \<and>
      length (annotations (handleDelete i s)) = length (annotations s) - 1 \<and>
      (\<forall>j. j < nat i \<longrightarrow> annotations (handleDelete i s) ! j = annotations s ! j) \<and>
      (\<forall>j. nat i \<le> j \<and> j < length (annotations s) - 1 \<longrightarrow>
           annotations (handleDelete i s) ! j = annotations s ! Suc j))"
proof (intro conjI impI)
  assume "annotations s = [A, B]"
  then show "annotations (handleDelete 0 s) = [B]"
    by (simp add: handleDelete_def splice_array_def)
next
  assume r: "0 \<le> i \<and> i < int (length (annotations s))"
  then have n: "nat i < length (annotations s)" by linarith
  have eq: "annotations (handleDelete i s) =
        take (nat i) (annotations s) @ drop (Suc (nat i)) (annotations s)"
    using r by (simp add: handleDelete_def splice_one_in_range Let_def)
  then show "annotations (handleDelete i s) =
        take (nat i) (annotations s) @ drop (Suc (nat i)) (annotations s)" .
  show "length (annotations (handleDelete i s)) = length (annotations s) - 1"
    using n by (simp add: eq)
  show "\<forall>j. j < nat i \<longrightarrow> annotations (handleDelete i s) ! j = annotations s ! j"
    using n by (simp add: eq nth_append)
  show "\<forall>j. nat i \<le> j \<and> j < length (annotations s) - 1 \<longrightarrow>
           annotations (handleDelete i s) ! j = annotations s ! Suc j"
  proof (intro allI impI)
    fix j assume j: "nat i \<le> j \<and> j < length (annotations s) - 1"
    have "(take (nat i) (annotations s) @ drop (Suc (nat i)) (annotations s)) ! j
            = drop (Suc (nat i)) (annotations s) ! (j - nat i)"
      using n j by (simp add: nth_append)
    also have "\<dots> = annotations s ! (Suc (nat i) + (j - nat i))"
      using j n by (intro nth_drop) simp
    also have "Suc (nat i) + (j - nat i) = Suc j" using j by simp
    finally show "annotations (handleDelete i s) ! j = annotations s ! Suc j"
      by (simp add: eq)
  qed
qed

theorem handleDelete_reindexes_witness:
  "annotations (handleDelete 0
       (initialState\<lparr>annotations :=
          [\<lparr>positionRef = [1, 2, 3], contentRef = Some ''A'', modelRef = 0, isImage = False\<rparr>,
           \<lparr>positionRef = [4, 5, 6], contentRef = Some ''B'', modelRef = 0, isImage = True\<rparr>]\<rparr>))
     = [\<lparr>positionRef = [4, 5, 6], contentRef = Some ''B'', modelRef = 0, isImage = True\<rparr>]"
  using handleDelete_reindexes [of
      "initialState\<lparr>annotations :=
          [\<lparr>positionRef = [1, 2, 3], contentRef = Some ''A'', modelRef = 0, isImage = False\<rparr>,
           \<lparr>positionRef = [4, 5, 6], contentRef = Some ''B'', modelRef = 0, isImage = True\<rparr>]\<rparr>"
      "\<lparr>positionRef = [1, 2, 3], contentRef = Some ''A'', modelRef = 0, isImage = False\<rparr>"
      "\<lparr>positionRef = [4, 5, 6], contentRef = Some ''B'', modelRef = 0, isImage = True\<rparr>"
      0]
  by simp

text \<open>
  Claim C8: \<^verbatim>\<open>handleTypeChange(index, false, undefined)\<close> on a valid index succeeds, turns
  the record at that index into a Text record in place and sets its content to the
  placeholder \<open>''Annotation''\<close>, never to null; the record's anchor and model reference
  stay as they were.
\<close>

theorem handleTypeChange_text_placeholder:
  assumes "0 \<le> index" and "index < int (length (annotations s))"
  shows "\<exists>s'. handleTypeChange index False None s = Inr s' \<and>
           annotations s' = (annotations s)[nat index :=
              (annotations s ! nat index)\<lparr>isImage := False, contentRef := Some ''Annotation''\<rparr>] \<and>
           contentRef (annotations s' ! nat index) = Some ''Annotation'' \<and>
           isImage (annotations s' ! nat index) = False \<and>
           positionRef (annotations s' ! nat index) = positionRef (annotations s ! nat index) \<and>
           modelRef (annotations s' ! nat index) = modelRef (annotations s ! nat index)"
  using assms by (simp add: handleTypeChange_def or_else_def Let_def)

theorem handleTypeChange_text_placeholder_witness:
  "handleTypeChange 0 False None
       (initialState\<lparr>annotations :=
          [\<lparr>positionRef = [1, 2, 3], contentRef = Some ''img://foo'', modelRef = 0,
            isImage = True\<rparr>], annotationCount := 1\<rparr>)
     = Inr (initialState\<lparr>annotations :=
          [\<lparr>positionRef = [1, 2, 3], contentRef = Some ''Annotation'', modelRef = 0,
            isImage = False\<rparr>], annotationCount := 1\<rparr>)"
  using handleTypeChange_text_placeholder [of 0
      "initialState\<lparr>annotations :=
          [\<lparr>positionRef = [1, 2, 3], contentRef = Some ''img://foo'', modelRef = 0,
            isImage = True\<rparr>], annotationCount := 1\<rparr>"]
  by (simp add: handleTypeChange_def or_else_def initialState_def)

text \<open>
  Claim C9: when the new content is missing or the empty string, \<^verbatim>\<open>handleTypeChange\<close> on
  a valid index sets the record's content to null for an Image record and to the
  placeholder \<open>''Annotation''\<close> for a Text record, since both values are falsy. So a
  record's content can become null, and an emptied text comes back as the placeholder.
\<close>

theorem handleTypeChange_falsy_content:
  assumes "0 \<le> index" and "index < int (length (annotations s))"
    and "newContent = None \<or> newContent = Some []"
  shows "\<exists>s'. handleTypeChange index isImg newContent s = Inr s' \<and>
           isImage (annotations s' ! nat index) = isImg \<and>
           contentRef (annotations s' ! nat index) =
             (if isImg then None else Some ''Annotation'')"
  using assms by (auto simp: handleTypeChange_def or_else_def Let_def)

theorem handleTypeChange_falsy_content_witness:
  "handleTypeChange 0 True None
       (initialState\<lparr>annotations :=
          [\<lparr>positionRef = [1, 2, 3], contentRef = Some ''hello'', modelRef = 0,
            isImage = False\<rparr>], annotationCount := 1\<rparr>)
     = Inr (initialState\<lparr>annotations :=
          [\<lparr>positionRef = [1, 2, 3], contentRef = None, modelRef = 0,
            isImage = True\<rparr>], annotationCount := 1\<rparr>) \<and>
   handleTypeChange 0 False (Some [])
       (initialState\<lparr>annotations :=
          [\<lparr>positionRef = [1, 2, 3], contentRef = Some ''hello'', modelRef = 0,
            isImage = False\<rparr>], annotationCount := 1\<rparr>)
     = Inr (initialState\<lparr>annotations :=
          [\<lparr>positionRef = [1, 2, 3], contentRef = Some ''Annotation'', modelRef = 0,
            isImage = False\<rparr>], annotationCount := 1\<rparr>)"
  using handleTypeChange_falsy_content [of 0
      "initialState\<lparr>annotations :=
          [\<lparr>positionRef = [1, 2, 3], contentRef = Some ''hello'', modelRef = 0,
            isImage = False\<rparr>], annotationCount := 1\<rparr>" None True]
    handleTypeChange_falsy_content [of 0
      "initialState\<lparr>annotations :=
          [\<lparr>positionRef = [1, 2, 3], contentRef = Some ''hello'', modelRef = 0,
            isImage = False\<rparr>], annotationCount := 1\<rparr>" "Some []" False]
  by (simp add: handleTypeChange_def or_else_def initialState_def)

end
